theory Spec2Isabelle
  imports Complex_Main
begin

section \<open>The registration and fusion pipeline of \<open>pipeline/registration2.py\<close>\<close>

text \<open>
  The module drives Open3D and NumPy. Everything those libraries compute (nearest
  neighbours, down-sampling, RANSAC, ICP, matrix products) is taken as a parameter of
  the model, collected in the record \<open>o3d\<close>; what the module itself decides
  (guards, thresholds, the fusion loop, the try/except blocks) is written out.
  Python floats are idealised as reals, except where the module itself distinguishes
  NaN and infinity or changes the precision: the entries of a transformation matrix,
  the \<open>inlier_rmse\<close> of the metrics dictionary and the depth samples, which
  \<open>create_point_cloud\<close> casts to \<open>float32\<close>, are \<open>fval\<close>s.
\<close>

subsection \<open>Values\<close>

datatype fval = Finite real | PosInf | NegInf | NaN

type_synonym mat = "fval list list"

datatype py_error = AttributeError | ZeroDivisionError | KeyError | IndexError | LinAlgError

datatype pyval = PyBool bool | PyInt int | PyFloat fval

text \<open>The fields of Open3D's \<open>RegistrationResult\<close> that the module reads.\<close>

record registration_result =
  transformation :: mat
  fitness :: real
  inlier_rmse :: real
  correspondence_set :: nat

text \<open>
  The library. A registration call that raises is \<open>None\<close>; \<open>np_inv\<close> is
  \<open>None\<close> where \<open>np.linalg.inv\<close> raises \<open>LinAlgError\<close>. \<open>diameter\<close> is
  \<open>np.linalg.norm(get_max_bound() - get_min_bound())\<close> and \<open>num_points\<close> is
  \<open>len(pcd.points)\<close>.
\<close>

record ('pc, 'feat) o3d =
  num_points :: "'pc \<Rightarrow> nat"
  diameter :: "'pc \<Rightarrow> real"
  voxel_down_sample :: "'pc \<Rightarrow> real \<Rightarrow> 'pc"
  remove_statistical_outlier :: "'pc \<Rightarrow> nat \<Rightarrow> real \<Rightarrow> 'pc"
  estimate_normals :: "'pc \<Rightarrow> real \<Rightarrow> nat \<Rightarrow> 'pc"
  orient_normals_consistent_tangent_plane :: "'pc \<Rightarrow> nat \<Rightarrow> 'pc"
  compute_fpfh_feature :: "'pc \<Rightarrow> real \<Rightarrow> nat \<Rightarrow> 'feat"
  transform :: "'pc \<Rightarrow> mat \<Rightarrow> 'pc"
  pcd_add :: "'pc \<Rightarrow> 'pc \<Rightarrow> 'pc"
  registration_ransac_based_on_feature_matching ::
    "'pc \<Rightarrow> 'pc \<Rightarrow> 'feat \<Rightarrow> 'feat \<Rightarrow> real \<Rightarrow> nat \<Rightarrow> nat \<Rightarrow> registration_result option"
  registration_icp :: "'pc \<Rightarrow> 'pc \<Rightarrow> real \<Rightarrow> mat \<Rightarrow> nat \<Rightarrow> registration_result option"
  o3d_evaluate_registration :: "'pc \<Rightarrow> 'pc \<Rightarrow> real \<Rightarrow> mat \<Rightarrow> registration_result option"
  np_matmul :: "mat \<Rightarrow> mat \<Rightarrow> mat"
  np_inv :: "mat \<Rightarrow> mat option"
  np_power :: "mat \<Rightarrow> real \<Rightarrow> mat"

subsection \<open>NumPy helpers the module's control flow depends on\<close>

definition identity4 :: mat where
  "identity4 =
    [[Finite 1, Finite 0, Finite 0, Finite 0],
     [Finite 0, Finite 1, Finite 0, Finite 0],
     [Finite 0, Finite 0, Finite 1, Finite 0],
     [Finite 0, Finite 0, Finite 0, Finite 1]]"

fun isnan :: "fval \<Rightarrow> bool" where
  "isnan NaN = True"
| "isnan _ = False"

fun isinf :: "fval \<Rightarrow> bool" where
  "isinf PosInf = True"
| "isinf NegInf = True"
| "isinf _ = False"

definition np_any_isnan :: "mat \<Rightarrow> bool" where
  "np_any_isnan M = list_ex (list_ex isnan) M"

definition np_any_isinf :: "mat \<Rightarrow> bool" where
  "np_any_isinf M = list_ex (list_ex isinf) M"

text \<open>\<open>np.isclose\<close> with its default tolerances \<open>rtol = 1e-5\<close>, \<open>atol = 1e-8\<close>.\<close>

fun isclose :: "fval \<Rightarrow> fval \<Rightarrow> bool" where
  "isclose (Finite a) (Finite b) = (\<bar>a - b\<bar> \<le> 1 / 100000000 + \<bar>b\<bar> / 100000)"
| "isclose PosInf PosInf = True"
| "isclose NegInf NegInf = True"
| "isclose _ _ = False"

definition np_allclose :: "mat \<Rightarrow> mat \<Rightarrow> bool" where
  "np_allclose M N = list_all2 (list_all2 isclose) M N"

definition np_median :: "real list \<Rightarrow> real" where
  "np_median xs =
    (let s = sort xs; n = length s
     in if even n then (s ! (n div 2 - 1) + s ! (n div 2)) / 2 else s ! (n div 2))"

subsection \<open>\<open>create_point_cloud\<close>\<close>

text \<open>
  The comparisons of IEEE values: every comparison with a NaN is false.
\<close>

fun flt :: "fval \<Rightarrow> fval \<Rightarrow> bool" where
  "flt (Finite a) (Finite b) = (a < b)"
| "flt (Finite a) PosInf = True"
| "flt NegInf (Finite b) = True"
| "flt NegInf PosInf = True"
| "flt _ _ = False"

fun fle :: "fval \<Rightarrow> fval \<Rightarrow> bool" where
  "fle (Finite a) (Finite b) = (a \<le> b)"
| "fle (Finite a) PosInf = True"
| "fle NegInf (Finite b) = True"
| "fle NegInf NegInf = True"
| "fle NegInf PosInf = True"
| "fle PosInf PosInf = True"
| "fle _ _ = False"

text \<open>
  \<open>depth_map.astype(np.float32)\<close>, lines 14 and 15. The rounding of a finite value to
  \<open>float32\<close> is NumPy's and is the parameter \<open>rnd\<close>; it may overflow to an infinity.
  Infinities and NaN are kept. The cast is the identity on an array that is
  \<open>float32\<close> already, so the test of line 14 does not show in the values.
\<close>

fun astype_float32 :: "(real \<Rightarrow> fval) \<Rightarrow> fval \<Rightarrow> fval" where
  "astype_float32 rnd (Finite x) = rnd x"
| "astype_float32 rnd v = v"

text \<open>
  One entry of \<open>(depth_map > 0) & (depth_map < depth_trunc * depth_scale)\<close> on the
  cast array: the comparison runs in \<open>float32\<close>, so the Python float on the right is
  rounded as well; the integer 0 is exact.
\<close>

definition valid_sample :: "(real \<Rightarrow> fval) \<Rightarrow> real \<Rightarrow> real \<Rightarrow> fval \<Rightarrow> bool" where
  "valid_sample rnd depth_scale depth_trunc d =
    (flt (Finite 0) d \<and> flt d (rnd (depth_trunc * depth_scale)))"

definition depth_mask ::
  "(real \<Rightarrow> fval) \<Rightarrow> fval list list \<Rightarrow> real \<Rightarrow> real \<Rightarrow> bool list list" where
  "depth_mask rnd depth_map depth_scale depth_trunc =
    map (map (valid_sample rnd depth_scale depth_trunc)) depth_map"

text \<open>\<open>np.sum\<close> of a boolean array: the number of \<open>True\<close> entries.\<close>

definition np_sum :: "bool list list \<Rightarrow> nat" where
  "np_sum m = sum_list (map (\<lambda>row. sum_list (map (\<lambda>b. if b then 1 else 0) row)) m)"

text \<open>
  \<open>from_rgbd\<close> stands for \<open>RGBDImage.create_from_color_and_depth\<close> followed by
  \<open>PointCloud.create_from_rgbd_image\<close>; it is given the cast depth map.
\<close>

definition create_point_cloud ::
  "('pc, 'feat) o3d \<Rightarrow> (real \<Rightarrow> fval) \<Rightarrow>
   ('img \<Rightarrow> fval list list \<Rightarrow> 'intr \<Rightarrow> real \<Rightarrow> real \<Rightarrow> 'pc) \<Rightarrow>
   'img \<Rightarrow> fval list list \<Rightarrow> 'intr \<Rightarrow> real \<Rightarrow> real \<Rightarrow> 'pc option" where
  "create_point_cloud lib rnd from_rgbd color_image depth_map intrinsic depth_scale depth_trunc =
    (let depth_map32 = map (map (astype_float32 rnd)) depth_map
     in if np_sum (depth_mask rnd depth_map32 depth_scale depth_trunc) < 100 then None
        else
          let pcd = from_rgbd color_image depth_map32 intrinsic depth_scale depth_trunc
          in if num_points lib pcd > 0
             then Some (remove_statistical_outlier lib pcd
                          (min 30 (max 10 (num_points lib pcd div 1000))) 2)
             else Some pcd)"

text \<open>
  What the model asks of the rounding: it is monotone (and so never yields a NaN) and
  exact at 0, as rounding to nearest is.
\<close>

definition float32_rounding :: "(real \<Rightarrow> fval) \<Rightarrow> bool" where
  "float32_rounding rnd = ((\<forall>x y. x \<le> y \<longrightarrow> fle (rnd x) (rnd y)) \<and> rnd 0 = Finite 0)"

text \<open>A depth sample that lies strictly inside \<open>(0, bound)\<close>.\<close>

fun strictly_inside :: "real \<Rightarrow> fval \<Rightarrow> bool" where
  "strictly_inside bound (Finite x) = (0 < x \<and> x < bound)"
| "strictly_inside bound _ = False"

subsection \<open>\<open>preprocess_point_cloud\<close>, \<open>execute_global_registration\<close>, \<open>refine_registration\<close>\<close>

text \<open>The pair \<open>(None, None)\<close> of the source is \<open>None\<close> here.\<close>

definition preprocess_point_cloud ::
  "('pc, 'feat) o3d \<Rightarrow> 'pc \<Rightarrow> real \<Rightarrow> ('pc \<times> 'feat) option" where
  "preprocess_point_cloud lib pcd voxel_size =
    (if num_points lib pcd = 0 then None
     else
       let pcd_down = voxel_down_sample lib pcd voxel_size
       in if num_points lib pcd_down < 10 then None
          else
            let pcd_n = estimate_normals lib pcd_down (voxel_size * 2)
                          (min 30 (num_points lib pcd_down))
            in Some (pcd_n,
                     compute_fpfh_feature lib pcd_n (voxel_size * 5)
                       (min 100 (num_points lib pcd_n))))"

definition execute_global_registration ::
  "('pc, 'feat) o3d \<Rightarrow> 'pc option \<Rightarrow> 'pc option \<Rightarrow> 'feat \<Rightarrow> 'feat \<Rightarrow> real \<Rightarrow>
   registration_result option" where
  "execute_global_registration lib source_down target_down source_fpfh target_fpfh voxel_size =
    (case (source_down, target_down) of
       (Some s, Some t) \<Rightarrow>
         let model_diameter = min (diameter lib s) (diameter lib t);
             distance_threshold = min (voxel_size * 1.5) (model_diameter * 0.05);
             point_count = min (num_points lib s) (num_points lib t);
             max_iterations = min 4000000 (max 100000 (point_count * 1000));
             max_validation = min 500 (max 50 (point_count div 10))
         in registration_ransac_based_on_feature_matching lib s t source_fpfh target_fpfh
              distance_threshold max_iterations max_validation
     | _ \<Rightarrow> None)"

definition refine_registration ::
  "('pc, 'feat) o3d \<Rightarrow> 'pc option \<Rightarrow> 'pc option \<Rightarrow> mat option \<Rightarrow> real \<Rightarrow>
   registration_result option" where
  "refine_registration lib source target initial_transform voxel_size =
    (case (source, target, initial_transform) of
       (Some s, Some t, Some init) \<Rightarrow>
         let distance_threshold = min (voxel_size * 0.4) (diameter lib s * 0.02);
             point_count = min (num_points lib s) (num_points lib t);
             max_iteration = min 100 (max 30 (point_count div 1000))
         in registration_icp lib s t distance_threshold init max_iteration
     | _ \<Rightarrow> None)"

subsection \<open>\<open>multi_scale_icp\<close>\<close>

text \<open>The body of the \<open>for i, voxel_size in enumerate(voxel_sizes)\<close> loop.\<close>

definition multi_scale_step ::
  "('pc, 'feat) o3d \<Rightarrow> 'pc \<Rightarrow> 'pc \<Rightarrow> nat \<Rightarrow> real \<Rightarrow> mat \<Rightarrow> mat" where
  "multi_scale_step lib source target i voxel_size current_transformation =
    (case (preprocess_point_cloud lib source voxel_size,
           preprocess_point_cloud lib target voxel_size) of
       (Some (source_down, source_fpfh), Some (target_down, target_fpfh)) \<Rightarrow>
         let cur1 =
               (if i = 0 \<and> np_allclose current_transformation identity4
                then (case execute_global_registration lib (Some source_down) (Some target_down)
                             source_fpfh target_fpfh voxel_size of
                        Some result \<Rightarrow> transformation result
                      | None \<Rightarrow> current_transformation)
                else current_transformation)
         in (case refine_registration lib (Some source_down) (Some target_down)
                    (Some cur1) voxel_size of
               Some result \<Rightarrow> transformation result
             | None \<Rightarrow> cur1)
     | _ \<Rightarrow> current_transformation)"

fun multi_scale_loop ::
  "('pc, 'feat) o3d \<Rightarrow> 'pc \<Rightarrow> 'pc \<Rightarrow> nat \<Rightarrow> real list \<Rightarrow> mat \<Rightarrow> mat" where
  "multi_scale_loop lib source target i [] cur = cur"
| "multi_scale_loop lib source target i (v # vs) cur =
     multi_scale_loop lib source target (Suc i) vs (multi_scale_step lib source target i v cur)"

text \<open>The default schedule, from the source cloud's diameter.\<close>

definition default_voxel_sizes :: "('pc, 'feat) o3d \<Rightarrow> 'pc \<Rightarrow> real list" where
  "default_voxel_sizes lib source =
    (let base_voxel_size = diameter lib source * 0.01
     in [base_voxel_size * 4, base_voxel_size * 2, base_voxel_size])"

text \<open>The transformation the loop ends with, before the final validation.\<close>

definition final_transformation ::
  "('pc, 'feat) o3d \<Rightarrow> 'pc \<Rightarrow> 'pc \<Rightarrow> real list option \<Rightarrow> mat" where
  "final_transformation lib source target voxel_sizes =
    multi_scale_loop lib source target 0
      (case voxel_sizes of None \<Rightarrow> default_voxel_sizes lib source | Some vs \<Rightarrow> vs)
      identity4"

definition multi_scale_icp ::
  "('pc, 'feat) o3d \<Rightarrow> 'pc option \<Rightarrow> 'pc option \<Rightarrow> real list option \<Rightarrow> mat option" where
  "multi_scale_icp lib source target voxel_sizes =
    (case (source, target) of
       (Some s, Some t) \<Rightarrow>
         let current_transformation = final_transformation lib s t voxel_sizes
         in if \<not> np_any_isnan current_transformation then Some current_transformation
            else Some identity4
     | _ \<Rightarrow> None)"

subsection \<open>\<open>evaluate_registration\<close>\<close>

text \<open>The metrics dictionary, as the list of its items.\<close>

type_synonym metrics = "(string \<times> pyval) list"

definition adaptive_threshold :: "real \<Rightarrow> real \<Rightarrow> real" where
  "adaptive_threshold threshold source_diameter = min threshold (source_diameter * 0.01)"

definition evaluate_registration ::
  "('pc, 'feat) o3d \<Rightarrow> 'pc option \<Rightarrow> 'pc option \<Rightarrow> mat \<Rightarrow> real \<Rightarrow> metrics" where
  "evaluate_registration lib source target transformation_arg threshold =
    (case (source, target) of
       (Some s, Some t) \<Rightarrow>
         let adaptive = adaptive_threshold threshold (diameter lib s)
         in (case o3d_evaluate_registration lib s t adaptive transformation_arg of
               Some evaluation \<Rightarrow>
                 [(''fitness'', PyFloat (Finite (fitness evaluation))),
                  (''inlier_rmse'', PyFloat (Finite (inlier_rmse evaluation))),
                  (''correspondence_set'', PyInt (int (correspondence_set evaluation))),
                  (''success'', PyBool (fitness evaluation > 0.3
                                       \<and> inlier_rmse evaluation < adaptive * 2))]
             | None \<Rightarrow>
                 [(''fitness'', PyInt 0), (''inlier_rmse'', PyFloat PosInf),
                  (''correspondence_set'', PyInt 0), (''success'', PyBool False)])
     | _ \<Rightarrow>
         [(''fitness'', PyInt 0), (''inlier_rmse'', PyFloat PosInf),
          (''correspondence_set'', PyInt 0)])"

text \<open>\<open>metrics[key]\<close>: a missing key raises \<open>KeyError\<close>.\<close>

definition getitem :: "metrics \<Rightarrow> string \<Rightarrow> py_error + pyval" where
  "getitem m k = (case map_of m k of None \<Rightarrow> Inl KeyError | Some v \<Rightarrow> Inr v)"

fun truthy :: "pyval \<Rightarrow> bool" where
  "truthy (PyBool b) = b"
| "truthy (PyInt n) = (n \<noteq> 0)"
| "truthy (PyFloat x) = (x \<noteq> Finite 0)"

subsection \<open>\<open>incremental_registration\<close>\<close>

text \<open>
  The scale estimate taken when no \<open>voxel_size\<close> is given: \<open>len(pcd.points)\<close> on a
  \<open>None\<close> entry raises \<open>AttributeError\<close>.
\<close>

fun collect_diameters :: "('pc, 'feat) o3d \<Rightarrow> 'pc option list \<Rightarrow> py_error + real list" where
  "collect_diameters lib [] = Inr []"
| "collect_diameters lib (None # ps) = Inl AttributeError"
| "collect_diameters lib (Some p # ps) =
     (case collect_diameters lib ps of
        Inl e \<Rightarrow> Inl e
      | Inr ds \<Rightarrow> Inr (if num_points lib p > 0 then diameter lib p # ds else ds))"

definition choose_voxel_size ::
  "('pc, 'feat) o3d \<Rightarrow> 'pc option list \<Rightarrow> real option \<Rightarrow> py_error + real" where
  "choose_voxel_size lib pcd_list voxel_size =
    (case voxel_size of
       Some v \<Rightarrow> Inr v
     | None \<Rightarrow>
         (case collect_diameters lib pcd_list of
            Inl e \<Rightarrow> Inl e
          | Inr diameters \<Rightarrow>
              Inr (if diameters \<noteq> [] then np_median diameters * 0.01 else 0.05)))"

fun valid_clouds :: "('pc, 'feat) o3d \<Rightarrow> 'pc option list \<Rightarrow> 'pc list" where
  "valid_clouds lib [] = []"
| "valid_clouds lib (None # ps) = valid_clouds lib ps"
| "valid_clouds lib (Some p # ps) =
     (if num_points lib p > 0 then p # valid_clouds lib ps else valid_clouds lib ps)"

text \<open>\<open>voxel_down_sample\<close> followed by \<open>remove_statistical_outlier(20, 2.0)\<close>.\<close>

definition downsample_and_clean :: "('pc, 'feat) o3d \<Rightarrow> real \<Rightarrow> 'pc \<Rightarrow> 'pc" where
  "downsample_and_clean lib voxel_size merged =
    remove_statistical_outlier lib (voxel_down_sample lib merged voxel_size) 20 2"

definition scale_schedule :: "real \<Rightarrow> real list" where
  "scale_schedule voxel_size = [voxel_size * 4, voxel_size * 2, voxel_size]"

text \<open>
  The state of the fusion loop is the running model \<open>merged\<close> and the list
  \<open>transformations\<close>. \<open>fuse_frame\<close> is the branch taken when the metrics report
  success; \<open>i % batch_size\<close> raises \<open>ZeroDivisionError\<close> for \<open>batch_size = 0\<close>.
\<close>

definition fuse_frame ::
  "('pc, 'feat) o3d \<Rightarrow> real \<Rightarrow> int \<Rightarrow> nat \<Rightarrow> 'pc \<Rightarrow> mat \<Rightarrow> 'pc \<times> mat list \<Rightarrow>
   py_error + 'pc \<times> mat list" where
  "fuse_frame lib voxel_size batch_size i current_pcd T st =
    (let merged1 = pcd_add lib (fst st) (transform lib current_pcd T);
         transformations1 = snd st @ [T]
     in if batch_size = 0 then Inl ZeroDivisionError
        else if int i mod batch_size = 0
        then Inr (downsample_and_clean lib voxel_size merged1, transformations1)
        else Inr (merged1, transformations1))"

definition fusion_step ::
  "('pc, 'feat) o3d \<Rightarrow> real \<Rightarrow> int \<Rightarrow> nat \<Rightarrow> 'pc \<Rightarrow> 'pc \<times> mat list \<Rightarrow>
   py_error + 'pc \<times> mat list" where
  "fusion_step lib voxel_size batch_size i current_pcd st =
    (case multi_scale_icp lib (Some current_pcd) (Some (fst st))
            (Some (scale_schedule voxel_size)) of
       None \<Rightarrow> Inr st
     | Some T \<Rightarrow>
         (case getitem (evaluate_registration lib (Some current_pcd) (Some (fst st)) T
                          (voxel_size * 2)) ''success'' of
            Inl e \<Rightarrow> Inl e
          | Inr v \<Rightarrow>
              if truthy v then fuse_frame lib voxel_size batch_size i current_pcd T st
              else Inr st))"

fun fusion_loop ::
  "('pc, 'feat) o3d \<Rightarrow> real \<Rightarrow> int \<Rightarrow> nat \<Rightarrow> 'pc list \<Rightarrow> 'pc \<times> mat list \<Rightarrow>
   py_error + 'pc \<times> mat list" where
  "fusion_loop lib voxel_size batch_size i [] st = Inr st"
| "fusion_loop lib voxel_size batch_size i (p # ps) st =
     (case fusion_step lib voxel_size batch_size i p st of
        Inl e \<Rightarrow> Inl e
      | Inr st' \<Rightarrow> fusion_loop lib voxel_size batch_size (Suc i) ps st')"

text \<open>
  Loop closure. The rebuild loop reads \<open>transformations[i]\<close> for every index of
  \<open>valid_pcd_list\<close>; it returns the model as mutated so far together with the exception
  that stopped it, if any, because the \<open>except\<close> clause keeps whatever \<open>merged\<close>
  holds when the exception arrives.
\<close>

fun rebuild_loop ::
  "('pc, 'feat) o3d \<Rightarrow> 'pc list \<Rightarrow> mat list \<Rightarrow> mat \<Rightarrow> nat \<Rightarrow> 'pc \<Rightarrow> 'pc \<times> py_error option" where
  "rebuild_loop lib [] transformations error_root i merged = (merged, None)"
| "rebuild_loop lib (p # ps) transformations error_root i merged =
     (if i < length transformations
      then rebuild_loop lib ps transformations error_root (Suc i)
             (pcd_add lib merged
                (transform lib p
                   (np_matmul lib (transformations ! i) (np_power lib error_root (real i)))))
      else (merged, Some IndexError))"

definition loop_closure ::
  "('pc, 'feat) o3d \<Rightarrow> real \<Rightarrow> 'pc list \<Rightarrow> mat list \<Rightarrow> 'pc \<Rightarrow> 'pc \<times> py_error option" where
  "loop_closure lib voxel_size valid_pcd_list transformations merged =
    (if length valid_pcd_list > 10 then
       (case valid_pcd_list of
          [] \<Rightarrow> (merged, Some IndexError)
        | first_pcd # rest \<Rightarrow>
            let accumulated_transform = foldl (np_matmul lib) identity4 (drop 1 transformations);
                last_transformed = transform lib (last valid_pcd_list) accumulated_transform
            in (case multi_scale_icp lib (Some last_transformed) (Some first_pcd)
                       (Some (scale_schedule voxel_size)) of
                  None \<Rightarrow> (merged, None)
                | Some loop_transform \<Rightarrow>
                    (case getitem (evaluate_registration lib (Some last_transformed)
                                     (Some first_pcd) loop_transform (voxel_size * 2))
                            ''success'' of
                       Inl e \<Rightarrow> (merged, Some e)
                     | Inr v \<Rightarrow>
                         if truthy v then
                           (case np_inv lib (np_matmul lib accumulated_transform loop_transform) of
                              None \<Rightarrow> (merged, Some LinAlgError)
                            | Some error_per_transform \<Rightarrow>
                                (case np_inv lib error_per_transform of
                                   None \<Rightarrow> (merged, Some LinAlgError)
                                 | Some inv_error \<Rightarrow>
                                     let error_root =
                                           ((\<lambda>r. np_matmul lib r
                                                  (np_power lib inv_error (1 / 6))) ^^ 6)
                                             identity4
                                     in rebuild_loop lib rest transformations error_root 1
                                          first_pcd))
                         else (merged, None))))
     else (merged, None))"

definition finalize :: "('pc, 'feat) o3d \<Rightarrow> real \<Rightarrow> 'pc \<Rightarrow> 'pc" where
  "finalize lib voxel_size merged =
    orient_normals_consistent_tangent_plane lib
      (estimate_normals lib (downsample_and_clean lib voxel_size merged) (voxel_size * 2) 30) 15"

definition incremental_registration ::
  "('pc, 'feat) o3d \<Rightarrow> 'pc option list \<Rightarrow> real option \<Rightarrow> int \<Rightarrow> py_error + 'pc option" where
  "incremental_registration lib pcd_list voxel_size batch_size =
    (if pcd_list = [] \<or> length pcd_list < 2
     then Inr (case pcd_list of [] \<Rightarrow> None | p # _ \<Rightarrow> p)
     else
       (case choose_voxel_size lib pcd_list voxel_size of
          Inl e \<Rightarrow> Inl e
        | Inr vs \<Rightarrow>
            (case valid_clouds lib pcd_list of
               [] \<Rightarrow> Inr None
             | first_pcd # rest \<Rightarrow>
                 (case fusion_loop lib vs batch_size 1 rest (first_pcd, [identity4]) of
                    Inl e \<Rightarrow> Inl e
                  | Inr (merged, transformations) \<Rightarrow>
                      Inr (Some (finalize lib vs
                             (fst (loop_closure lib vs (first_pcd # rest) transformations
                                     merged))))))))"

subsection \<open>A small concrete library\<close>

text \<open>
  Clouds are lists of point labels. Down-sampling removes repeated labels, merging is
  concatenation, ICP returns its initial estimate, and the evaluation reports fitness 0
  for a cloud that holds the label 13 and fitness 1 otherwise, with an inlier RMSE of
  one half.
\<close>

definition toy_lib :: "(nat list, unit) o3d" where
  "toy_lib =
    \<lparr> num_points = length,
      diameter = (\<lambda>p. 100),
      voxel_down_sample = (\<lambda>p v. remdups p),
      remove_statistical_outlier = (\<lambda>p k r. p),
      estimate_normals = (\<lambda>p r k. p),
      orient_normals_consistent_tangent_plane = (\<lambda>p k. p),
      compute_fpfh_feature = (\<lambda>p r k. ()),
      transform = (\<lambda>p T. p),
      pcd_add = (\<lambda>p q. p @ q),
      registration_ransac_based_on_feature_matching = (\<lambda>s t sf tf d n k. None),
      registration_icp = (\<lambda>s t d init k.
        Some \<lparr> transformation = init, fitness = 1, inlier_rmse = 0,
               correspondence_set = length s \<rparr>),
      o3d_evaluate_registration = (\<lambda>s t d T.
        Some \<lparr> transformation = T, fitness = (if 13 \<in> set s then 0 else 1),
               inlier_rmse = 1 / 2, correspondence_set = length s \<rparr>),
      np_matmul = (\<lambda>A B. A),
      np_inv = (\<lambda>A. Some A),
      np_power = (\<lambda>A r. A) \<rparr>"

definition inf_matrix :: mat where
  "inf_matrix =
    [[Finite 1, Finite 0, Finite 0, PosInf],
     [Finite 0, Finite 1, Finite 0, Finite 0],
     [Finite 0, Finite 0, Finite 1, Finite 0],
     [Finite 0, Finite 0, Finite 0, Finite 1]]"

text \<open>The same library with an ICP whose result carries an infinite translation.\<close>

definition inf_lib :: "(nat list, unit) o3d" where
  "inf_lib =
    toy_lib \<lparr> registration_icp := (\<lambda>s t d init k.
      Some \<lparr> transformation = inf_matrix, fitness = 1, inlier_rmse = 0,
             correspondence_set = length s \<rparr>) \<rparr>"

definition nan_matrix :: mat where
  "nan_matrix =
    [[NaN, Finite 0, Finite 0, Finite 0],
     [Finite 0, Finite 1, Finite 0, Finite 0],
     [Finite 0, Finite 0, Finite 1, Finite 0],
     [Finite 0, Finite 0, Finite 0, Finite 1]]"

text \<open>And with an ICP whose result carries a NaN.\<close>

definition nan_lib :: "(nat list, unit) o3d" where
  "nan_lib =
    toy_lib \<lparr> registration_icp := (\<lambda>s t d init k.
      Some \<lparr> transformation = nan_matrix, fitness = 1, inlier_rmse = 0,
             correspondence_set = length s \<rparr>) \<rparr>"

definition ten_points :: "nat list" where
  "ten_points = [0, 1, 2, 3, 4, 5, 6, 7, 8, 9]"

text \<open>
  Eleven clouds of which the second fails the evaluation, and the ten transformations
  the fusion loop records for them.
\<close>

definition eleven_clouds :: "nat list list" where
  "eleven_clouds = [[0], [13], [2], [3], [4], [5], [6], [7], [8], [9], [10]]"

definition ten_identities :: "mat list" where
  "ten_identities = [identity4, identity4, identity4, identity4, identity4,
                     identity4, identity4, identity4, identity4, identity4]"

text \<open>A coarse rounding for tracing: to the nearest integer.\<close>

definition coarse_rounding :: "real \<Rightarrow> fval" where
  "coarse_rounding x = Finite (of_int (round x))"

definition sample_depths :: "fval list list" where
  "sample_depths = [[Finite 0, Finite 500, Finite 2999.9], [Finite 3500, Finite (- 1), NaN]]"

subsection \<open>The success judgment\<close>

text \<open>
  What the fusion loop reads: \<open>metrics["success"]\<close> is present and true.
\<close>

definition registration_success ::
  "('pc, 'feat) o3d \<Rightarrow> 'pc \<Rightarrow> 'pc \<Rightarrow> mat \<Rightarrow> real \<Rightarrow> bool" where
  "registration_success lib s t T th =
    (getitem (evaluate_registration lib (Some s) (Some t) T th) ''success'' = Inr (PyBool True))"

text \<open>
  The judgment as the specification words it, with the constant 0.02 in the adaptive
  threshold.
\<close>

definition spec_registration_success ::
  "('pc, 'feat) o3d \<Rightarrow> 'pc \<Rightarrow> 'pc \<Rightarrow> mat \<Rightarrow> bool" where
  "spec_registration_success lib s t T =
    (case o3d_evaluate_registration lib s t (min 0.02 (0.01 * diameter lib s)) T of
       None \<Rightarrow> False
     | Some ev \<Rightarrow> fitness ev > 0.3 \<and> inlier_rmse ev < 2 * min 0.02 (0.01 * diameter lib s))"

section \<open>Properties\<close>

lemma identity4_no_nan: "\<not> np_any_isnan identity4"
  by (simp add: np_any_isnan_def identity4_def)

lemma multi_scale_icp_some:
  "multi_scale_icp lib (Some s) (Some t) vss =
     Some (if np_any_isnan (final_transformation lib s t vss) then identity4
           else final_transformation lib s t vss)"
  by (simp add: multi_scale_icp_def Let_def)

lemma getitem_success_some:
  "getitem (evaluate_registration lib (Some s) (Some t) T th) ''success'' =
     Inr (PyBool (case o3d_evaluate_registration lib s t (adaptive_threshold th (diameter lib s)) T of
                    None \<Rightarrow> False
                  | Some ev \<Rightarrow> fitness ev > 0.3
                      \<and> inlier_rmse ev < adaptive_threshold th (diameter lib s) * 2))"
  by (simp add: getitem_def evaluate_registration_def Let_def split: option.splits)

lemma toy_fields:
  "num_points toy_lib = length"
  "diameter toy_lib = (\<lambda>p. 100)"
  "voxel_down_sample toy_lib = (\<lambda>p v. remdups p)"
  "remove_statistical_outlier toy_lib = (\<lambda>p k r. p)"
  "estimate_normals toy_lib = (\<lambda>p r k. p)"
  "orient_normals_consistent_tangent_plane toy_lib = (\<lambda>p k. p)"
  "transform toy_lib = (\<lambda>p T. p)"
  "pcd_add toy_lib = (\<lambda>p q. p @ q)"
  "o3d_evaluate_registration toy_lib = (\<lambda>s t d T.
        Some \<lparr> transformation = T, fitness = (if 13 \<in> set s then 0 else 1),
               inlier_rmse = 1 / 2, correspondence_set = length s \<rparr>)"
  "np_matmul toy_lib = (\<lambda>A B. A)"
  "np_inv toy_lib = (\<lambda>A. Some A)"
  "np_power toy_lib = (\<lambda>A r. A)"
  by (simp_all add: toy_lib_def)

lemma multi_scale_step_skip:
  "preprocess_point_cloud lib s v = None \<Longrightarrow> multi_scale_step lib s t i v cur = cur"
  by (simp add: multi_scale_step_def)

lemma multi_scale_loop_skip:
  "(\<And>v. preprocess_point_cloud lib s v = None) \<Longrightarrow> multi_scale_loop lib s t i vs cur = cur"
  by (induction vs arbitrary: i cur) (simp_all add: multi_scale_step_skip)

lemma toy_preprocess_small:
  "length s < 10 \<Longrightarrow> preprocess_point_cloud toy_lib s v = None"
proof -
  assume "length s < 10"
  with length_remdups_leq [of s] have "length (remdups s) < 10" by linarith
  then show ?thesis
    by (simp add: preprocess_point_cloud_def toy_fields Let_def)
qed

lemma toy_small_transformation:
  "length s < 10 \<Longrightarrow> final_transformation toy_lib s t (Some (scale_schedule v)) = identity4"
  by (simp add: final_transformation_def multi_scale_loop_skip toy_preprocess_small)

lemma toy_small_icp:
  "length s < 10 \<Longrightarrow> multi_scale_icp toy_lib (Some s) (Some t) (Some (scale_schedule v)) = Some identity4"
  by (simp add: multi_scale_icp_some toy_small_transformation identity4_no_nan)

lemma toy_step_good:
  "length s < 10 \<Longrightarrow> 13 \<notin> set s \<Longrightarrow>
   fusion_step toy_lib 1 4 i s (m, ts) =
     Inr (if int i mod 4 = 0 then remdups (m @ s) else m @ s, ts @ [identity4])"
  by (simp add: fusion_step_def toy_small_icp getitem_success_some toy_fields
      adaptive_threshold_def fuse_frame_def downsample_and_clean_def Let_def)

lemma toy_step_bad:
  "length s < 10 \<Longrightarrow> 13 \<in> set s \<Longrightarrow>
   fusion_step toy_lib 1 4 i s (m, ts) = Inr (m, ts)"
  by (simp add: fusion_step_def toy_small_icp getitem_success_some toy_fields
      adaptive_threshold_def fuse_frame_def downsample_and_clean_def Let_def)

lemma registration_success_iff:
  "registration_success lib s t T th =
     (case o3d_evaluate_registration lib s t (min th (0.01 * diameter lib s)) T of
        None \<Rightarrow> False
      | Some ev \<Rightarrow> fitness ev > 0.3 \<and> inlier_rmse ev < 2 * min th (0.01 * diameter lib s))"
  by (simp add: registration_success_def getitem_success_some adaptive_threshold_def
      mult.commute split: option.splits)

lemma fusion_step_cases:
  assumes "multi_scale_icp lib (Some p) (Some m) (Some (scale_schedule vs)) = Some T"
  shows "fusion_step lib vs bs i p (m, ts) =
     (if registration_success lib p m T (vs * 2) then fuse_frame lib vs bs i p T (m, ts)
      else Inr (m, ts))"
  using assms
  by (simp add: fusion_step_def registration_success_def getitem_success_some)

lemma fuse_frame_result:
  "bs \<noteq> 0 \<Longrightarrow> fuse_frame lib vs bs i p T (m, ts) =
     Inr (if int i mod bs = 0
          then downsample_and_clean lib vs (pcd_add lib m (transform lib p T))
          else pcd_add lib m (transform lib p T), ts @ [T])"
  by (simp add: fuse_frame_def Let_def)

lemma fusion_step_total:
  "bs \<noteq> 0 \<Longrightarrow> \<exists>st'. fusion_step lib vs bs i p st = Inr st'"
  by (cases st) (simp add: fusion_step_cases [OF multi_scale_icp_some] fuse_frame_result)

lemma fusion_loop_total:
  "bs \<noteq> 0 \<Longrightarrow> \<exists>st'. fusion_loop lib vs bs i ps st = Inr st'"
proof (induction ps arbitrary: i st)
  case Nil
  then show ?case by simp
next
  case (Cons p ps)
  from Cons.prems have "\<exists>st1. fusion_step lib vs bs i p st = Inr st1"
    by (rule fusion_step_total)
  then obtain st1 where "fusion_step lib vs bs i p st = Inr st1" ..
  with Cons.IH [OF Cons.prems] show ?case by simp
qed

lemma allclose_identity4: "np_allclose identity4 identity4"
  by (simp add: np_allclose_def identity4_def)

lemma inf_final:
  "final_transformation inf_lib ten_points ten_points (Some [1]) = inf_matrix"
  by (simp add: final_transformation_def multi_scale_step_def preprocess_point_cloud_def
      execute_global_registration_def refine_registration_def allclose_identity4
      inf_lib_def toy_lib_def ten_points_def Let_def)

lemma nan_final:
  "final_transformation nan_lib ten_points ten_points (Some [1]) = nan_matrix"
  by (simp add: final_transformation_def multi_scale_step_def preprocess_point_cloud_def
      execute_global_registration_def refine_registration_def allclose_identity4
      nan_lib_def toy_lib_def ten_points_def Let_def)

lemma np_sum_row:
  "sum_list (map ((\<lambda>b. if b then 1 else (0::nat)) \<circ> P) row) = length (filter P row)"
  by (induction row) simp_all

lemma np_sum_depth_mask:
  "np_sum (depth_mask rnd (map (map f) dm) scale trunc) =
     length (filter (\<lambda>d. valid_sample rnd scale trunc (f d)) (concat dm))"
proof (induction dm)
  case Nil
  show ?case by (simp add: np_sum_def depth_mask_def)
next
  case (Cons row dm)
  then show ?case
    using np_sum_row [of "\<lambda>d. valid_sample rnd scale trunc (f d)" row]
    by (simp add: np_sum_def depth_mask_def comp_def)
qed

lemma fle_not_flt: "fle a b \<Longrightarrow> \<not> flt b a"
  by (cases a; cases b) simp_all

lemma valid_sample_inside:
  assumes r: "float32_rounding rnd"
    and v: "valid_sample rnd scale trunc (astype_float32 rnd d)"
  shows "strictly_inside (trunc * scale) d"
proof (cases d)
  case (Finite x)
  from v Finite have pos: "flt (Finite 0) (rnd x)"
    and below: "flt (rnd x) (rnd (trunc * scale))"
    by (simp_all add: valid_sample_def)
  from r have mono: "fle (rnd a) (rnd b)" if "a \<le> b" for a b
    using that by (simp add: float32_rounding_def)
  from r have zero: "rnd 0 = Finite 0"
    by (simp add: float32_rounding_def)
  have "0 < x"
  proof (rule ccontr)
    assume "\<not> 0 < x"
    then have "x \<le> 0" by simp
    then have "fle (rnd x) (rnd 0)" by (rule mono)
    with pos show False by (simp add: zero fle_not_flt)
  qed
  moreover have "x < trunc * scale"
  proof (rule ccontr)
    assume "\<not> x < trunc * scale"
    then have "trunc * scale \<le> x" by simp
    then have "fle (rnd (trunc * scale)) (rnd x)" by (rule mono)
    with below show False by (simp add: fle_not_flt)
  qed
  ultimately show ?thesis using Finite by simp
next
  case PosInf
  with v show ?thesis by (simp add: valid_sample_def)
next
  case NegInf
  with v show ?thesis by (simp add: valid_sample_def)
next
  case NaN
  with v show ?thesis by (simp add: valid_sample_def)
qed

lemma length_filter_mono:
  "(\<And>x. x \<in> set xs \<Longrightarrow> P x \<Longrightarrow> Q x) \<Longrightarrow> length (filter P xs) \<le> length (filter Q xs)"
  by (induction xs) auto

lemma coarse_rounding_ok: "float32_rounding coarse_rounding"
  by (simp add: float32_rounding_def coarse_rounding_def round_mono)

lemma length_valid_clouds: "length (valid_clouds lib pcd_list) \<le> length pcd_list"
  by (induction lib pcd_list rule: valid_clouds.induct) (auto simp: le_SucI)

lemma incremental_registration_loop:
  assumes "2 \<le> length (valid_clouds lib pcd_list)"
  shows "incremental_registration lib pcd_list (Some vs) bs =
     (case fusion_loop lib vs bs 1 (tl (valid_clouds lib pcd_list))
             (hd (valid_clouds lib pcd_list), [identity4]) of
        Inl e \<Rightarrow> Inl e
      | Inr st \<Rightarrow>
          Inr (Some (finalize lib vs
                 (fst (loop_closure lib vs (valid_clouds lib pcd_list) (snd st) (fst st))))))"
proof -
  from assms length_valid_clouds [of lib pcd_list] have "2 \<le> length pcd_list" by linarith
  then have long: "\<not> (pcd_list = [] \<or> length pcd_list < 2)" by auto
  from assms obtain first_pcd rest where v: "valid_clouds lib pcd_list = first_pcd # rest"
    by (cases "valid_clouds lib pcd_list") auto
  show ?thesis
    unfolding incremental_registration_def choose_voxel_size_def v
    using long by (simp split: sum.splits prod.splits)
qed

lemma fusion_loop_append:
  "fusion_loop lib vs bs i (xs @ ys) st =
     (case fusion_loop lib vs bs i xs st of
        Inl e \<Rightarrow> Inl e
      | Inr st' \<Rightarrow> fusion_loop lib vs bs (i + length xs) ys st')"
proof (induction xs arbitrary: i st)
  case Nil
  show ?case by simp
next
  case (Cons x xs)
  show ?case
  proof (cases "fusion_step lib vs bs i x st")
    case (Inl e)
    then show ?thesis by simp
  next
    case (Inr st1)
    with Cons.IH [of "Suc i" st1] show ?thesis by (simp split: sum.splits)
  qed
qed

lemma evaluate_registration_exception_has_success:
  "o3d_evaluate_registration lib s t (adaptive_threshold th (diameter lib s)) T = None \<Longrightarrow>
   getitem (evaluate_registration lib (Some s) (Some t) T th) ''success'' = Inr (PyBool False)"
  by (simp add: getitem_success_some)

lemma toy_accumulating:
  "fusion_loop toy_lib 1 4 1 (tl eleven_clouds) (hd eleven_clouds, [identity4])
     = Inr ([0, 2, 3, 4, 5, 6, 7, 8, 9, 10], ten_identities)"
  by (simp add: eleven_clouds_def ten_identities_def toy_step_good toy_step_bad)

lemma toy_rebuild:
  "loop_closure toy_lib 1 eleven_clouds ten_identities [0, 2, 3, 4, 5, 6, 7, 8, 9, 10]
     = ([0, 13, 2, 3, 4, 5, 6, 7, 8, 9], Some IndexError)"
  by (simp add: loop_closure_def eleven_clouds_def ten_identities_def toy_small_icp
      getitem_success_some adaptive_threshold_def toy_fields Let_def)

lemma loop_closure_short:
  "length valid \<le> 10 \<Longrightarrow> loop_closure lib vs valid ts merged = (merged, None)"
  by (simp add: loop_closure_def)

subsection \<open>The success gate of the fusion loop\<close>

text \<open>
  C1 (as amended). \<open>evaluate_registration\<close> computes its adaptive threshold as the
  minimum of its \<open>threshold\<close> argument and one hundredth of the source diameter, and
  reports success exactly when the library evaluation completes with
  \<open>fitness > 0.3\<close> and \<open>inlier_rmse\<close> below twice that threshold. The fusion loop
  passes \<open>2 * voxel_size\<close> as the argument (0.02 is only the default), and, for a
  non-zero \<open>batch_size\<close>, it takes the appending branch and records the frame's
  transformation if and only if this judgment is true.
\<close>

theorem fusion_gate:
  assumes "multi_scale_icp lib (Some p) (Some m) (Some (scale_schedule vs)) = Some T"
    and "bs \<noteq> 0"
  shows "adaptive_threshold th (diameter lib p) = min th (0.01 * diameter lib p)
    \<and> registration_success lib p m T th =
        (case o3d_evaluate_registration lib p m (adaptive_threshold th (diameter lib p)) T of
           None \<Rightarrow> False
         | Some ev \<Rightarrow> fitness ev > 0.3
             \<and> inlier_rmse ev < 2 * adaptive_threshold th (diameter lib p))
    \<and> (\<exists>m'. fusion_step lib vs bs i p (m, ts) = Inr (m', ts @ [T]))
        = registration_success lib p m T (vs * 2)
    \<and> fusion_step lib vs bs i p (m, ts) =
        (if registration_success lib p m T (vs * 2) then fuse_frame lib vs bs i p T (m, ts)
         else Inr (m, ts))"
  using assms
  by (simp add: fusion_step_cases fuse_frame_result registration_success_iff
      adaptive_threshold_def mult.commute split: option.splits)

theorem fusion_gate_witness:
  "multi_scale_icp toy_lib (Some [5]) (Some [1]) (Some (scale_schedule 1)) = Some identity4
   \<and> registration_success toy_lib [5] [1] identity4 2
   \<and> fusion_step toy_lib 1 4 1 [5] ([1], [identity4]) = Inr ([1, 5], [identity4, identity4])"
proof -
  have icp: "multi_scale_icp toy_lib (Some [5]) (Some [1]) (Some (scale_schedule 1)) = Some identity4"
    by (simp add: toy_small_icp)
  have bs: "(4::int) \<noteq> 0" by simp
  have ok: "registration_success toy_lib [5] [1] identity4 2"
    by (simp add: registration_success_iff toy_fields)
  from fusion_gate [OF icp bs, of 2 1 "[identity4]"] ok icp show ?thesis
    by (simp add: fuse_frame_result toy_fields)
qed

text \<open>
  With \<open>voxel_size = 1\<close> and a source diameter of 100 the threshold is 1, so an inlier
  RMSE of one half passes and the frame is appended, although it fails the judgment
  taken at the constant 0.02.
\<close>

theorem fusion_gate_threshold_counterexample:
  "fusion_step toy_lib 1 4 1 [5] ([1], [identity4]) = Inr ([1, 5], [identity4, identity4])
   \<and> \<not> spec_registration_success toy_lib [5] [1] identity4"
  by (simp add: toy_step_good spec_registration_success_def toy_fields)


subsection \<open>A frame that fails is skipped\<close>

text \<open>
  C2. When \<open>multi_scale_icp\<close> returns no transformation, or the registration of a
  frame fails the success judgment, the step leaves the running model and the recorded
  transformations exactly as they were, and the loop goes on with the next frame;
  with a non-zero \<open>batch_size\<close> the loop always runs to its end.
\<close>

theorem failed_frame_skipped:
  assumes "multi_scale_icp lib (Some p) (Some m) (Some (scale_schedule vs)) = None
     \<or> (\<exists>T. multi_scale_icp lib (Some p) (Some m) (Some (scale_schedule vs)) = Some T
            \<and> \<not> registration_success lib p m T (vs * 2))"
  shows "fusion_step lib vs bs i p (m, ts) = Inr (m, ts)
    \<and> fusion_loop lib vs bs i (p # ps) (m, ts) = fusion_loop lib vs bs (Suc i) ps (m, ts)
    \<and> (bs \<noteq> 0 \<longrightarrow> (\<exists>st'. fusion_loop lib vs bs i (p # ps) (m, ts) = Inr st'))"
proof -
  have step: "fusion_step lib vs bs i p (m, ts) = Inr (m, ts)"
    using assms
  proof
    assume "multi_scale_icp lib (Some p) (Some m) (Some (scale_schedule vs)) = None"
    then show ?thesis by (simp add: fusion_step_def)
  next
    assume "\<exists>T. multi_scale_icp lib (Some p) (Some m) (Some (scale_schedule vs)) = Some T
            \<and> \<not> registration_success lib p m T (vs * 2)"
    then obtain T where
      "multi_scale_icp lib (Some p) (Some m) (Some (scale_schedule vs)) = Some T"
      "\<not> registration_success lib p m T (vs * 2)" by blast
    then show ?thesis by (simp add: fusion_step_cases)
  qed
  then have loop:
    "fusion_loop lib vs bs i (p # ps) (m, ts) = fusion_loop lib vs bs (Suc i) ps (m, ts)"
    by simp
  have "bs \<noteq> 0 \<longrightarrow> (\<exists>st'. fusion_loop lib vs bs i (p # ps) (m, ts) = Inr st')"
    by (blast intro: fusion_loop_total)
  with step loop show ?thesis by blast
qed

theorem failed_frame_skipped_witness:
  "\<not> registration_success toy_lib [13] [1] identity4 (1 * 2)
   \<and> fusion_step toy_lib 1 4 1 [13] ([1], [identity4]) = Inr ([1], [identity4])
   \<and> fusion_loop toy_lib 1 4 1 [[13], [2]] ([1], [identity4])
       = Inr ([1, 2], [identity4, identity4])"
proof -
  have icp: "multi_scale_icp toy_lib (Some [13]) (Some [1]) (Some (scale_schedule 1)) = Some identity4"
    by (simp add: toy_small_icp)
  have bad: "\<not> registration_success toy_lib [13] [1] identity4 (1 * 2)"
    by (simp add: registration_success_iff toy_fields)
  from icp bad have
    "multi_scale_icp toy_lib (Some [13]) (Some [1]) (Some (scale_schedule 1)) = None
     \<or> (\<exists>T. multi_scale_icp toy_lib (Some [13]) (Some [1]) (Some (scale_schedule 1)) = Some T
            \<and> \<not> registration_success toy_lib [13] [1] identity4 (1 * 2))"
    by simp
  then have h:
    "multi_scale_icp toy_lib (Some [13]) (Some [1]) (Some (scale_schedule 1)) = None
     \<or> (\<exists>T. multi_scale_icp toy_lib (Some [13]) (Some [1]) (Some (scale_schedule 1)) = Some T
            \<and> \<not> registration_success toy_lib [13] [1] T (1 * 2))"
    using icp bad by simp
  from failed_frame_skipped [OF h, of 4 1 "[identity4]" "[[2]]"] bad
  show ?thesis by (simp add: toy_step_good)
qed

subsection \<open>The final validation of \<open>multi_scale_icp\<close>\<close>

text \<open>
  C3 (as amended). For non-\<open>None\<close> clouds \<open>multi_scale_icp\<close> always returns a
  transformation, and that transformation never contains a NaN: when the one the loop
  ends with contains a NaN, the identity is returned in its place. Infinite entries
  are not looked for.
\<close>

theorem multi_scale_icp_never_nan:
  "multi_scale_icp lib (Some s) (Some t) vss =
     Some (if np_any_isnan (final_transformation lib s t vss) then identity4
           else final_transformation lib s t vss)
   \<and> (\<exists>T. multi_scale_icp lib (Some s) (Some t) vss = Some T \<and> \<not> np_any_isnan T)"
  by (simp add: multi_scale_icp_some identity4_no_nan)

theorem multi_scale_icp_never_nan_witness:
  "np_any_isnan (final_transformation nan_lib ten_points ten_points (Some [1]))
   \<and> multi_scale_icp nan_lib (Some ten_points) (Some ten_points) (Some [1]) = Some identity4"
proof -
  have n: "np_any_isnan (final_transformation nan_lib ten_points ten_points (Some [1]))"
    by (simp add: nan_final np_any_isnan_def nan_matrix_def)
  with multi_scale_icp_never_nan [of nan_lib ten_points ten_points "Some [1]"]
  show ?thesis by simp
qed

text \<open>
  An ICP result with an infinite translation passes the validation and is returned.
\<close>

theorem multi_scale_icp_inf_counterexample:
  "multi_scale_icp inf_lib (Some ten_points) (Some ten_points) (Some [1]) = Some inf_matrix
   \<and> np_any_isinf inf_matrix"
  by (simp add: multi_scale_icp_some inf_final np_any_isnan_def np_any_isinf_def inf_matrix_def)

subsection \<open>Periodic consolidation\<close>

text \<open>
  C4 (as amended). The running model is consolidated (down-sampled at \<open>voxel_size\<close>
  and passed through statistical outlier removal) exactly when a frame is fused and
  that frame's index \<open>k\<close> in the list of valid clouds is a multiple of
  \<open>batch_size\<close>; a skipped frame never consolidates, and fused frames are not counted.
  A \<open>batch_size\<close> of 0 makes the first fused frame raise \<open>ZeroDivisionError\<close>.

  In the statement \<open>(m, ts)\<close> is the state the loop of \<open>incremental_registration\<close>
  has reached before the frame at position \<open>k\<close> of the valid clouds, whatever
  happened to the frames before it, and \<open>T\<close> is the transformation registered for
  that frame. The last conjunct says that \<open>incremental_registration\<close> runs this very
  loop: from index 1, over the valid clouds after the first, seeded with the first.
\<close>

theorem consolidation_by_position:
  assumes "0 < k" and "k < length (valid_clouds lib pcd_list)"
    and "fusion_loop lib vs bs 1 (take (k - 1) (tl (valid_clouds lib pcd_list)))
           (hd (valid_clouds lib pcd_list), [identity4]) = Inr (m, ts)"
    and "multi_scale_icp lib (Some (valid_clouds lib pcd_list ! k)) (Some m)
           (Some (scale_schedule vs)) = Some T"
  shows "fusion_loop lib vs bs 1 (take k (tl (valid_clouds lib pcd_list)))
           (hd (valid_clouds lib pcd_list), [identity4]) =
     (if registration_success lib (valid_clouds lib pcd_list ! k) m T (vs * 2)
      then (if bs = 0 then Inl ZeroDivisionError
            else Inr (if int k mod bs = 0
                      then downsample_and_clean lib vs
                             (pcd_add lib m (transform lib (valid_clouds lib pcd_list ! k) T))
                      else pcd_add lib m (transform lib (valid_clouds lib pcd_list ! k) T),
                      ts @ [T]))
      else Inr (m, ts))
    \<and> incremental_registration lib pcd_list (Some vs) bs =
        (case fusion_loop lib vs bs 1 (tl (valid_clouds lib pcd_list))
                (hd (valid_clouds lib pcd_list), [identity4]) of
           Inl e \<Rightarrow> Inl e
         | Inr st \<Rightarrow>
             Inr (Some (finalize lib vs
                    (fst (loop_closure lib vs (valid_clouds lib pcd_list) (snd st) (fst st))))))"
proof -
  define valid where "valid = valid_clouds lib pcd_list"
  from assms(1,2) obtain j where k: "k = Suc j" and j: "j < length (tl valid)"
    by (cases k) (auto simp: valid_def)
  from j have nth: "valid ! k = tl valid ! j"
    by (cases valid) (simp_all add: k)
  from j have split: "take k (tl valid) = take j (tl valid) @ [tl valid ! j]"
    by (simp add: k take_Suc_conv_app_nth)
  from j have len: "length (take j (tl valid)) = j" by simp
  from assms(3) have before:
    "fusion_loop lib vs bs 1 (take j (tl valid)) (hd valid, [identity4]) = Inr (m, ts)"
    by (simp add: k valid_def)
  from assms(4) have icp:
    "multi_scale_icp lib (Some (tl valid ! j)) (Some m) (Some (scale_schedule vs)) = Some T"
    unfolding valid_def [symmetric] nth .
  have "fusion_loop lib vs bs 1 (take j (tl valid) @ [tl valid ! j]) (hd valid, [identity4]) =
      (case fusion_loop lib vs bs 1 (take j (tl valid)) (hd valid, [identity4]) of
         Inl e \<Rightarrow> Inl e
       | Inr st' \<Rightarrow> fusion_loop lib vs bs (1 + length (take j (tl valid))) [tl valid ! j] st')"
    by (rule fusion_loop_append)
  then have "fusion_loop lib vs bs 1 (take j (tl valid) @ [tl valid ! j]) (hd valid, [identity4]) =
      fusion_loop lib vs bs (Suc j) [tl valid ! j] (m, ts)"
    unfolding before len by simp
  then have "fusion_loop lib vs bs 1 (take j (tl valid) @ [tl valid ! j]) (hd valid, [identity4]) =
      fusion_step lib vs bs k (tl valid ! j) (m, ts)"
    by (simp add: k split: sum.splits)
  then have step: "fusion_loop lib vs bs 1 (take k (tl valid)) (hd valid, [identity4]) =
      fusion_step lib vs bs k (tl valid ! j) (m, ts)"
    by (simp only: split)
  have prefix: "fusion_loop lib vs bs 1 (take k (tl valid)) (hd valid, [identity4]) =
     (if registration_success lib (valid ! k) m T (vs * 2)
      then (if bs = 0 then Inl ZeroDivisionError
            else Inr (if int k mod bs = 0
                      then downsample_and_clean lib vs
                             (pcd_add lib m (transform lib (valid ! k) T))
                      else pcd_add lib m (transform lib (valid ! k) T),
                      ts @ [T]))
      else Inr (m, ts))"
    unfolding step nth
    by (simp add: fusion_step_cases [OF icp] fuse_frame_def Let_def)
  from assms(1,2) have "2 \<le> length (valid_clouds lib pcd_list)" by linarith
  then have whole: "incremental_registration lib pcd_list (Some vs) bs =
        (case fusion_loop lib vs bs 1 (tl (valid_clouds lib pcd_list))
                (hd (valid_clouds lib pcd_list), [identity4]) of
           Inl e \<Rightarrow> Inl e
         | Inr st \<Rightarrow>
             Inr (Some (finalize lib vs
                    (fst (loop_closure lib vs (valid_clouds lib pcd_list) (snd st) (fst st))))))"
    by (rule incremental_registration_loop)
  from prefix whole show ?thesis
    unfolding valid_def by (rule conjI)
qed

theorem consolidation_by_position_witness:
  "valid_clouds toy_lib [Some [7], None, Some [7], Some [13], Some [], Some [7], Some [7]]
     = [[7], [7], [13], [7], [7]]
   \<and> fusion_loop toy_lib 1 4 1 [[7], [13], [7]] ([7], [identity4])
       = Inr ([7, 7, 7], [identity4, identity4, identity4])
   \<and> fusion_loop toy_lib 1 4 1 [[7], [13], [7], [7]] ([7], [identity4])
       = Inr ([7], [identity4, identity4, identity4, identity4])"
proof -
  let ?l = "[Some [7], None, Some [7], Some [13], Some [], Some [7], Some [7::nat]]"
  have valid: "valid_clouds toy_lib ?l = [[7], [7], [13], [7], [7]]"
    by (simp add: toy_fields)
  have before: "fusion_loop toy_lib 1 4 1 (take (4 - 1) (tl (valid_clouds toy_lib ?l)))
      (hd (valid_clouds toy_lib ?l), [identity4]) = Inr ([7, 7, 7], [identity4, identity4, identity4])"
    unfolding valid by (simp add: toy_step_good toy_step_bad)
  have icp: "multi_scale_icp toy_lib (Some (valid_clouds toy_lib ?l ! 4)) (Some [7, 7, 7])
      (Some (scale_schedule 1)) = Some identity4"
    unfolding valid by (simp add: toy_small_icp)
  have k: "(0::nat) < 4" "4 < length (valid_clouds toy_lib ?l)"
    unfolding valid by simp_all
  have ok: "registration_success toy_lib [7] [7, 7, 7] identity4 (1 * 2)"
    by (simp add: registration_success_iff toy_fields)
  from consolidation_by_position [OF k before icp, THEN conjunct1] ok
  have "fusion_loop toy_lib 1 4 1 (take 4 (tl (valid_clouds toy_lib ?l)))
      (hd (valid_clouds toy_lib ?l), [identity4])
    = Inr ([7], [identity4, identity4, identity4, identity4])"
    unfolding valid by (simp add: downsample_and_clean_def toy_fields)
  with before valid show ?thesis
    unfolding valid by simp
qed

text \<open>
  Frames 1, 2, 3 and 5 are fused and frame 4 is skipped: four frames have been fused
  with \<open>batch_size = 4\<close>, and the model has not been consolidated.
\<close>

theorem consolidation_count_counterexample:
  "fusion_loop toy_lib 1 4 1 [[7], [7], [7], [13], [7]] ([7], [identity4]) =
     Inr ([7, 7, 7, 7, 7], [identity4, identity4, identity4, identity4, identity4])
   \<and> downsample_and_clean toy_lib 1 [7, 7, 7, 7, 7] \<noteq> [7, 7, 7, 7, 7]"
  by (simp add: toy_step_good toy_step_bad downsample_and_clean_def toy_fields)

subsection \<open>Loop closure\<close>

text \<open>
  C5. Loop closure runs only for more than ten valid clouds, and a failed attempt is
  meant to leave the model of the accumulating phase as it is. The rebuild, however,
  indexes \<open>transformations\<close> by the position in \<open>valid_pcd_list\<close>, and the list
  holds one entry per fused frame only. With eleven clouds of which the second was
  skipped, the loop-closure registration passes, the rebuild overwrites \<open>merged\<close>,
  pairs frames 1 to 9 with the wrong transformations and stops at index 10 with
  \<open>IndexError\<close>; the \<open>except\<close> clause swallows it, and the function returns the
  partial rebuild, which holds the frame that was rejected and lacks the last one.
\<close>

theorem loop_closure_partial_rebuild:
  "fusion_loop toy_lib 1 4 1 (tl eleven_clouds) (hd eleven_clouds, [identity4])
     = Inr ([0, 2, 3, 4, 5, 6, 7, 8, 9, 10], ten_identities)
   \<and> loop_closure toy_lib 1 eleven_clouds ten_identities [0, 2, 3, 4, 5, 6, 7, 8, 9, 10]
     = ([0, 13, 2, 3, 4, 5, 6, 7, 8, 9], Some IndexError)
   \<and> incremental_registration toy_lib (map Some eleven_clouds) (Some 1) 4
     = Inr (Some [0, 13, 2, 3, 4, 5, 6, 7, 8, 9])"
  by (simp add: toy_accumulating [unfolded eleven_clouds_def, simplified] toy_rebuild [unfolded eleven_clouds_def]
      incremental_registration_def choose_voxel_size_def eleven_clouds_def toy_fields
      finalize_def downsample_and_clean_def)


subsection \<open>Too few valid depth samples\<close>

text \<open>
  C6. \<open>create_point_cloud\<close> treats a depth sample as valid only if it lies strictly
  inside \<open>(0, depth_trunc * depth_scale)\<close>: whatever the mask accepts after the
  \<open>float32\<close> cast was strictly inside before it. A frame with fewer than 100 valid
  samples, and so every frame with fewer than 100 samples strictly inside, yields no
  cloud; nothing is built in that case. The converse is not claimed: the cast can move
  a sample onto a bound.
\<close>

theorem create_point_cloud_valid_count:
  assumes "float32_rounding rnd"
  shows "(valid_sample rnd scale trunc (astype_float32 rnd d)
            \<longrightarrow> strictly_inside (trunc * scale) d)
    \<and> (create_point_cloud lib rnd from_rgbd color dm intr scale trunc = None)
        = (length (filter (\<lambda>d. valid_sample rnd scale trunc (astype_float32 rnd d)) (concat dm))
             < 100)
    \<and> (length (filter (strictly_inside (trunc * scale)) (concat dm)) < 100
         \<longrightarrow> create_point_cloud lib rnd from_rgbd color dm intr scale trunc = None)"
proof -
  have one: "valid_sample rnd scale trunc (astype_float32 rnd d)
      \<longrightarrow> strictly_inside (trunc * scale) d" for d
    using assms by (blast intro: valid_sample_inside)
  have two: "(create_point_cloud lib rnd from_rgbd color dm intr scale trunc = None)
      = (length (filter (\<lambda>d. valid_sample rnd scale trunc (astype_float32 rnd d)) (concat dm))
           < 100)"
    by (simp add: create_point_cloud_def np_sum_depth_mask Let_def)
  have "length (filter (\<lambda>d. valid_sample rnd scale trunc (astype_float32 rnd d)) (concat dm))
      \<le> length (filter (strictly_inside (trunc * scale)) (concat dm))"
    using one by (intro length_filter_mono) blast
  with two have three: "length (filter (strictly_inside (trunc * scale)) (concat dm)) < 100
      \<longrightarrow> create_point_cloud lib rnd from_rgbd color dm intr scale trunc = None"
    by simp
  from one two three show ?thesis by blast
qed

text \<open>
  Of the six samples, 500 and 2999.9 lie strictly inside \<open>(0, 3000)\<close>; the rounding
  moves 2999.9 onto the bound, so the mask accepts 500 only.
\<close>

theorem create_point_cloud_valid_count_witness:
  "float32_rounding coarse_rounding
   \<and> length (filter (strictly_inside (3 * 1000)) (concat sample_depths)) = 2
   \<and> depth_mask coarse_rounding (map (map (astype_float32 coarse_rounding)) sample_depths) 1000 3
       = [[False, True, False], [False, False, False]]
   \<and> create_point_cloud toy_lib coarse_rounding (\<lambda>c d i s t. [1, 2]) () sample_depths () 1000 3
       = None"
proof -
  have n: "length (filter (strictly_inside (3 * 1000)) (concat sample_depths)) = 2"
    by (simp add: sample_depths_def)
  have m: "depth_mask coarse_rounding
      (map (map (astype_float32 coarse_rounding)) sample_depths) 1000 3
       = [[False, True, False], [False, False, False]]"
    by (simp add: depth_mask_def valid_sample_def sample_depths_def coarse_rounding_def round_def)
  from create_point_cloud_valid_count [OF coarse_rounding_ok, of 1000 3 NaN toy_lib
      "\<lambda>c d i s t. [1, 2]" "()" sample_depths "()"] n
  have "create_point_cloud toy_lib coarse_rounding (\<lambda>c d i s t. [1, 2]) () sample_depths () 1000 3
       = None"
    by simp
  with coarse_rounding_ok n m show ?thesis by simp
qed

subsection \<open>Sequences of at most one cloud\<close>

text \<open>
  C8. For an empty sequence \<open>incremental_registration\<close> returns \<open>None\<close>, and for a
  sequence of exactly one cloud it returns that cloud itself, with no cleanup applied.
\<close>

theorem incremental_registration_short:
  "incremental_registration lib [] voxel_size batch_size = Inr None
   \<and> incremental_registration lib [p] voxel_size batch_size = Inr p"
  by (simp add: incremental_registration_def)

subsection \<open>The \<open>success\<close> key of the metrics\<close>

text \<open>
  C9. Every result of \<open>evaluate_registration\<close> should carry a \<open>success\<close> field.
  The dictionary returned for a \<open>None\<close> source or target has no such key, so reading
  \<open>metrics["success"]\<close> raises \<open>KeyError\<close>; the branch taken when the library
  evaluation raises does set the key, to \<open>False\<close>.
\<close>

theorem evaluate_registration_none_lacks_success:
  "getitem (evaluate_registration lib None target T th) ''success'' = Inl KeyError
   \<and> getitem (evaluate_registration lib source None T th) ''success'' = Inl KeyError"
  by (cases source) (simp_all add: getitem_def evaluate_registration_def)

end
